theory Spec2Isabelle
  imports Complex_Main "HOL-Library.Word"
begin

section \<open>docker-tcp-switchboard: data model\<close>

text \<open>
  The program is \<^verbatim>\<open>src/docker-tcp-switchboard.py\<close>. It runs on one thread (the Twisted
  reactor), and \<^verbatim>\<open>DockerPorts.create\<close> and \<^verbatim>\<open>DockerPorts.destroy\<close> are plain
  synchronous methods, so every call runs to its end before the next one starts.

  Everything the program asks of the outside (the shell, the clock, the socket to the
  container) is answered by a \<open>world\<close>: one record per call of \<open>create\<close> or \<open>destroy\<close>,
  holding the answers that call receives. What the program does to the outside is an
  \<open>event list\<close>, in program order.
\<close>

datatype exn =
    KeyError | ValueError | IndexError | TypeError | OverflowError | AttributeError
  | UnicodeDecodeError

datatype attempt = ConnectError | RecvError | Received "8 word list"

datatype event =
    Print string
  | Shell string
  | SockConnect string "int option"
  | SockSetTimeout real
  | SockRecv nat
  | SockClose
  | Sleep real
  | PauseProducing
  | TransportWrite string
  | LoseConnection
  | ConnectTCP string "int option"

record world =
  format0 :: "string \<Rightarrow> exn + string"
  to_int :: "string \<Rightarrow> int option"
  float_add :: "real \<Rightarrow> real \<Rightarrow> real"
  run_result :: "exn + int \<times> string"
  port_result :: "exn + int \<times> string"
  kill_result :: "exn + int \<times> string"
  rm_result :: "exn + int \<times> string"
  clock :: "nat \<Rightarrow> real"
  attempts :: "nat \<Rightarrow> attempt"

text \<open>
  \<open>run_result\<close>, \<open>port_result\<close>, \<open>kill_result\<close> and \<open>rm_result\<close> are what
  \<^verbatim>\<open>subprocess.getstatusoutput\<close> does for \<^verbatim>\<open>docker run\<close>, \<^verbatim>\<open>docker port\<close>,
  \<^verbatim>\<open>docker kill\<close> and \<^verbatim>\<open>docker rm\<close>: \<open>Inr (rc, out)\<close> when it returns the exit code
  and the output, \<open>Inl e\<close> when it raises (it decodes the output, and raises
  \<^verbatim>\<open>UnicodeDecodeError\<close> on bytes it cannot decode). No call of it stands in a
  \<^verbatim>\<open>try\<close>, so what it raises leaves the method that called it.

  \<open>clock k\<close> is the \<open>k\<close>-th reading of \<^verbatim>\<open>time.time()\<close> and \<open>attempts k\<close> what the
  \<open>k\<close>-th connection attempt meets, both counted from 0 inside one
  \<^verbatim>\<open>__waitForOpenPort\<close>. A reading is a binary64 number, read here as the real number it
  denotes; comparing two of them is exact, adding is not, and \<open>float_add\<close> is the
  addition of the machine, rounding included. The literal \<^verbatim>\<open>0.1\<close> is only handed on
  (to \<^verbatim>\<open>settimeout\<close> and \<^verbatim>\<open>sleep\<close>), never computed with, and is written \<open>1 / 10\<close>.

  \<open>format0\<close> is Python's \<^verbatim>\<open>str.format(0)\<close> on a string that contains a brace and
  \<open>to_int\<close> is Python's \<^verbatim>\<open>int()\<close> on a string (\<open>None\<close> where it raises). Like
  \<open>float_add\<close> they are library functions, and every theorem below holds whatever
  they compute. \<^verbatim>\<open>print\<close> writes to a standard output that takes every line.
\<close>

record DockerInstance =
  oid :: nat
  dockerparams :: string
  imagename :: string
  middleport :: "int option"
  instanceid :: "string option"

text \<open>
  \<open>oid\<close> is the identity of the Python object: the class defines no \<^verbatim>\<open>__eq__\<close>, so
  \<^verbatim>\<open>list.remove\<close> compares instances by identity.
\<close>

record config =
  cfg_imagename :: string
  cfg_params :: string
  cfg_limit :: int

record DockerPorts =
  instancesByPort :: "int option \<rightharpoonup> DockerInstance"
  instancesByName :: "string \<rightharpoonup> DockerInstance list"
  imageParams :: "int \<rightharpoonup> config"

record state =
  ports :: DockerPorts
  objects :: nat

text \<open>
  \<open>ports\<close> is the global \<^verbatim>\<open>globalDockerPorts\<close>; \<open>objects\<close> counts the
  \<^verbatim>\<open>DockerInstance\<close> objects constructed so far and gives the next one its identity.
\<close>

section \<open>Strings\<close>

definition digit :: "nat \<Rightarrow> char" where
  "digit n = ''0123456789'' ! n"

function str_nat :: "nat \<Rightarrow> string" where
  "str_nat n = (if n < 10 then [digit n] else str_nat (n div 10) @ [digit (n mod 10)])"
  by pat_completeness auto
termination
  by (relation "measure id") auto

declare str_nat.simps [simp del]

definition str_int :: "int \<Rightarrow> string" where
  "str_int i = (if i < 0 then CHR ''-'' # str_nat (nat (- i)) else str_nat (nat i))"

definition fmt_int :: "int option \<Rightarrow> string" where
  "fmt_int p = (case p of None \<Rightarrow> ''None'' | Some i \<Rightarrow> str_int i)"

definition fmt_str :: "string option \<Rightarrow> string" where
  "fmt_str x = (case x of None \<Rightarrow> ''None'' | Some s \<Rightarrow> s)"

definition isspace :: "char \<Rightarrow> bool" where
  "isspace c = (c \<in> set [CHR 0x09, CHR 0x0A, CHR 0x0B, CHR 0x0C, CHR 0x0D,
                         CHR 0x1C, CHR 0x1D, CHR 0x1E, CHR 0x1F, CHR 0x20, CHR 0x85, CHR 0xA0])"

definition strip :: "string \<Rightarrow> string" where
  "strip s = rev (dropWhile isspace (rev (dropWhile isspace s)))"

fun split_on :: "char \<Rightarrow> string \<Rightarrow> string list" where
  "split_on c [] = [[]]"
| "split_on c (x # xs) =
     (if x = c then [] # split_on c xs
      else (case split_on c xs of [] \<Rightarrow> [[x]] | w # ws \<Rightarrow> (x # w) # ws))"

definition py_format0 :: "world \<Rightarrow> string \<Rightarrow> exn + string" where
  "py_format0 w s =
     (if CHR ''{'' \<in> set s \<or> CHR ''}'' \<in> set s then format0 w s else Inr s)"

text \<open>
  \<^verbatim>\<open>int(out.strip().split(" ")[2].split(":")[1])\<close> under a bare \<^verbatim>\<open>except\<close>: \<open>None\<close>
  is any exception of the expression (an index out of range, or \<^verbatim>\<open>int\<close> refusing).
\<close>

definition parse_port :: "world \<Rightarrow> string \<Rightarrow> int option" where
  "parse_port w out =
     (let fields = split_on CHR '' '' (strip out) in
      if length fields \<le> 2 then None
      else (let parts = split_on CHR '':'' (fields ! 2) in
            if length parts \<le> 1 then None else to_int w (parts ! 1)))"

section \<open>DockerInstance\<close>

subsection \<open>stop\<close>

text \<open>
  \<^verbatim>\<open>stop\<close> returns \<^verbatim>\<open>True\<close> or \<^verbatim>\<open>False\<close> (\<open>Inr\<close>), or passes on what
  \<^verbatim>\<open>getstatusoutput\<close> raised (\<open>Inl\<close>).
\<close>

definition stop :: "world \<Rightarrow> DockerInstance \<Rightarrow> (exn + bool) \<times> event list" where
  "stop w self =
     (let ev = [Print (''Killing and removing '' @ fmt_str (instanceid self)
                        @ '' (middleport '' @ fmt_int (middleport self) @ '')''),
                Shell (''docker kill '' @ fmt_str (instanceid self))] in
      case kill_result w of
        Inl e \<Rightarrow> (Inl e, ev)
      | Inr (rc, out) \<Rightarrow>
          if rc \<noteq> 0 then
            (Inr False, ev @ [Print (''Failed to stop instance for middleport ''
                                   @ fmt_int (middleport self) @ '', id '' @ fmt_str (instanceid self))])
          else
            (let ev2 = ev @ [Shell (''docker rm '' @ fmt_str (instanceid self))] in
             case rm_result w of
               Inl e \<Rightarrow> (Inl e, ev2)
             | Inr (rc2, out2) \<Rightarrow>
                 if rc2 \<noteq> 0 then
                   (Inr False, ev2 @ [Print (''Failed to remove instance for middleport ''
                                           @ fmt_int (middleport self) @ '', id ''
                                           @ fmt_str (instanceid self))])
                 else (Inr True, ev2)))"

subsection \<open>The readiness predicate\<close>

text \<open>
  \<^verbatim>\<open>__isPortOpen\<close>. \<^verbatim>\<open>s.connect\<close> raises \<^verbatim>\<open>TypeError\<close> on a port that is
  \<^verbatim>\<open>None\<close> and \<^verbatim>\<open>OverflowError\<close> on one outside 0..65535; neither is a
  \<^verbatim>\<open>socket.error\<close>, so neither is caught and \<^verbatim>\<open>s.close()\<close> is not reached.
\<close>

definition isPortOpen :: "DockerInstance \<Rightarrow> real \<Rightarrow> attempt \<Rightarrow> (exn + bool) \<times> event list" where
  "isPortOpen self readtimeout a =
     (case middleport self of
        None \<Rightarrow> (Inl TypeError, [SockConnect ''0.0.0.0'' None])
      | Some p \<Rightarrow>
          if p < 0 \<or> 65535 < p then (Inl OverflowError, [SockConnect ''0.0.0.0'' (Some p)])
          else (case a of
                  ConnectError \<Rightarrow> (Inr False, [SockConnect ''0.0.0.0'' (Some p), SockClose])
                | RecvError \<Rightarrow>
                    (Inr False, [SockConnect ''0.0.0.0'' (Some p), SockSetTimeout readtimeout,
                                 SockRecv 1, SockClose])
                | Received data \<Rightarrow>
                    (Inr (length data > 0), [SockConnect ''0.0.0.0'' (Some p),
                                             SockSetTimeout readtimeout, SockRecv 1, SockClose])))"

definition valid_port :: "DockerInstance \<Rightarrow> bool" where
  "valid_port self = (case middleport self of None \<Rightarrow> False | Some p \<Rightarrow> 0 \<le> p \<and> p \<le> 65535)"

subsection \<open>Readiness polling\<close>

text \<open>
  \<^verbatim>\<open>__waitForOpenPort(timeout=5, step=0.1)\<close>. \<open>started\<close> is the reading \<open>clock w 0\<close>; the
  loop test before attempt \<open>k\<close> reads \<open>clock w (Suc k)\<close> and compares it with the sum
  \<^verbatim>\<open>started + timeout\<close> as the machine computes it. The loop has no bound of its own: a
  clock that never passes that sum together with attempts that never succeed keeps it
  running, and that is the value \<open>None\<close>.
\<close>

partial_function (option) waitForOpenPort_loop ::
  "world \<Rightarrow> DockerInstance \<Rightarrow> real \<Rightarrow> real \<Rightarrow> real \<Rightarrow> nat \<Rightarrow> event list
     \<Rightarrow> ((exn + bool) \<times> event list) option" where
  "waitForOpenPort_loop w self started timeout step k evs =
     (if float_add w started timeout \<ge> clock w (Suc k) then
        (let r = isPortOpen self (1 / 10) (attempts w k) in
         if fst r = Inr False
         then waitForOpenPort_loop w self started timeout step (Suc k) (evs @ snd r @ [Sleep step])
         else Some (fst r, evs @ snd r))
      else Some (Inr False, evs))"

definition waitForOpenPort :: "world \<Rightarrow> DockerInstance \<Rightarrow> ((exn + bool) \<times> event list) option" where
  "waitForOpenPort w self = waitForOpenPort_loop w self (clock w 0) 5 (1 / 10) 0 []"

subsection \<open>start\<close>

text \<open>
  The result is \<open>None\<close> when the polling loop never ends, and otherwise what \<^verbatim>\<open>start\<close>
  returns or raises (\<open>Inr None\<close> is Python's \<^verbatim>\<open>None\<close>, \<open>Inr (Some i)\<close> the instance
  id), the object as \<^verbatim>\<open>start\<close> leaves it, and the events. Where \<^verbatim>\<open>start\<close> calls
  \<^verbatim>\<open>self.stop()\<close>, an exception of \<^verbatim>\<open>stop\<close> is the exception of \<^verbatim>\<open>start\<close>, and
  otherwise \<^verbatim>\<open>start\<close> returns \<^verbatim>\<open>None\<close> whatever \<^verbatim>\<open>stop\<close> returned.
\<close>

definition start ::
  "world \<Rightarrow> DockerInstance \<Rightarrow> ((exn + string option) \<times> DockerInstance \<times> event list) option" where
  "start w self =
     (case py_format0 w (''docker run --detach '' @ dockerparams self) of
        Inl e \<Rightarrow> Some (Inl e, self, [])
      | Inr cmd \<Rightarrow>
          (case run_result w of
             Inl e \<Rightarrow> Some (Inl e, self, [Shell cmd])
           | Inr (rc, out) \<Rightarrow>
               if rc \<noteq> 0 then
                 Some (Inr None, self,
                       [Shell cmd, Print ''Failed to start instance'',
                        Print (''rc='' @ str_int rc @ '', out='' @ out)])
               else
                 (let self1 = self\<lparr>instanceid := Some (strip out)\<rparr>;
                      ev1 = [Shell cmd, Shell (''docker port '' @ fmt_str (instanceid self1))] in
                  case port_result w of
                    Inl e \<Rightarrow> Some (Inl e, self1, ev1)
                  | Inr (rc2, out2) \<Rightarrow>
                      if rc2 \<noteq> 0 then
                        Some (Inr None, self1,
                              ev1 @ [Print (''Failed to get port information from ''
                                            @ fmt_str (instanceid self1)),
                                     Print (''rc='' @ str_int rc2 @ '', out='' @ out2)])
                      else
                        (case parse_port w out2 of
                           None \<Rightarrow>
                             Some (case fst (stop w self1) of Inl e \<Rightarrow> Inl e | Inr b \<Rightarrow> Inr None,
                                   self1,
                                   ev1 @ [Print (''Failed to parse port from returned data for instanceid ''
                                                 @ fmt_str (instanceid self1) @ '': '' @ out2)]
                                       @ snd (stop w self1))
                         | Some p \<Rightarrow>
                             (let self2 = self1\<lparr>middleport := Some p\<rparr>;
                                  ev2 = ev1 @ [Print (''Started instance on middleport ''
                                                      @ fmt_int (middleport self2)
                                                      @ '' with ID '' @ fmt_str (instanceid self2))] in
                              case waitForOpenPort w self2 of
                                None \<Rightarrow> None
                              | Some (Inl e, ev3) \<Rightarrow> Some (Inl e, self2, ev2 @ ev3)
                              | Some (Inr True, ev3) \<Rightarrow>
                                  Some (Inr (instanceid self2), self2, ev2 @ ev3)
                              | Some (Inr False, ev3) \<Rightarrow>
                                  Some (case fst (stop w self2) of
                                          Inl e \<Rightarrow> Inl e | Inr b \<Rightarrow> Inr None,
                                        self2, ev2 @ ev3 @ snd (stop w self2)))))))"

section \<open>DockerPorts\<close>

definition init :: state where
  "init = \<lparr>ports = \<lparr>instancesByPort = Map.empty, instancesByName = Map.empty,
                      imageParams = Map.empty\<rparr>,
           objects = 0\<rparr>"

definition registerProxy :: "state \<Rightarrow> string \<Rightarrow> int \<Rightarrow> string \<Rightarrow> int \<Rightarrow> (exn + unit) \<times> state" where
  "registerProxy s imagename' outerport params limit =
     (Inr (),
      s\<lparr>ports := (ports s)\<lparr>imageParams := (imageParams (ports s))
           (outerport \<mapsto> \<lparr>cfg_imagename = imagename', cfg_params = params, cfg_limit = limit\<rparr>)\<rparr>\<rparr>)"

text \<open>The number of instances registered for an image: the length of its list, 0 without one.\<close>

definition icount :: "state \<Rightarrow> string \<Rightarrow> nat" where
  "icount s n = (case instancesByName (ports s) n of None \<Rightarrow> 0 | Some l \<Rightarrow> length l)"

text \<open>
  \<^verbatim>\<open>create\<close>. \<open>Inr None\<close> is the \<^verbatim>\<open>return None\<close> of the limit check, \<open>Inr (Some i)\<close>
  the returned instance, \<open>Inl e\<close> an exception, and the outer \<open>None\<close> a \<^verbatim>\<open>start\<close> that
  never returns. The value \<^verbatim>\<open>start\<close> returns is not read by \<^verbatim>\<open>create\<close>.
\<close>

definition create ::
  "world \<Rightarrow> state \<Rightarrow> int \<Rightarrow> ((exn + DockerInstance option) \<times> state \<times> event list) option" where
  "create w s outerport =
     (case imageParams (ports s) outerport of
        None \<Rightarrow> Some (Inl KeyError, s, [])
      | Some cfg \<Rightarrow>
          (let imagename' = cfg_imagename cfg; imagelimit = cfg_limit cfg in
           if imagelimit > 0 \<and> imagename' \<in> dom (instancesByName (ports s))
              \<and> int (icount s imagename') \<ge> imagelimit
           then Some (Inr None, s,
                      [Print (''Reached max count of '' @ str_int imagelimit @ '' (currently ''
                              @ str_int (int (icount s imagename')) @ '') for image '' @ imagename')])
           else
             (let instance = \<lparr>oid = objects s, dockerparams = cfg_params cfg, imagename = imagename',
                              middleport = None, instanceid = None\<rparr>;
                  s1 = s\<lparr>objects := Suc (objects s)\<rparr> in
              case start w instance of
                None \<Rightarrow> None
              | Some (Inl e, instance', ev) \<Rightarrow> Some (Inl e, s1, ev)
              | Some (Inr started, instance', ev) \<Rightarrow>
                  (let p = middleport instance';
                       byPort = (instancesByPort (ports s1))(p \<mapsto> instance');
                       byName = (case instancesByName (ports s1) imagename' of
                                   None \<Rightarrow> (instancesByName (ports s1))(imagename' \<mapsto> [] @ [instance'])
                                 | Some l \<Rightarrow> (instancesByName (ports s1))(imagename' \<mapsto> l @ [instance']))
                   in Some (Inr (Some instance'),
                            s1\<lparr>ports := (ports s1)\<lparr>instancesByPort := byPort,
                                                   instancesByName := byName\<rparr>\<rparr>,
                            ev)))))"

text \<open>\<^verbatim>\<open>list.remove\<close>: drops the first element that is the same object, \<^verbatim>\<open>ValueError\<close> without one.\<close>

fun list_remove :: "DockerInstance \<Rightarrow> DockerInstance list \<Rightarrow> exn + DockerInstance list" where
  "list_remove x [] = Inl ValueError"
| "list_remove x (y # ys) =
     (if oid y = oid x then Inr ys
      else (case list_remove x ys of Inl e \<Rightarrow> Inl e | Inr zs \<Rightarrow> Inr (y # zs)))"

text \<open>
  \<^verbatim>\<open>destroy\<close>. An exception leaves the state as the statements before it made it: one
  out of \<^verbatim>\<open>instance.stop()\<close> and a \<^verbatim>\<open>KeyError\<close> of \<^verbatim>\<open>del\<close> change nothing, one of the lookup by name or a
  \<^verbatim>\<open>ValueError\<close> of \<^verbatim>\<open>remove\<close> comes after the port has been deleted.
\<close>

definition destroy :: "world \<Rightarrow> state \<Rightarrow> DockerInstance \<Rightarrow> (exn + unit) \<times> state \<times> event list" where
  "destroy w s instance =
     (let ev = snd (stop w instance);
          p = middleport instance;
          n = imagename instance in
      case fst (stop w instance) of
        Inl e \<Rightarrow> (Inl e, s, ev)
      | Inr b \<Rightarrow>
          if p \<notin> dom (instancesByPort (ports s)) then (Inl KeyError, s, ev)
          else
            (let s1 = s\<lparr>ports := (ports s)\<lparr>instancesByPort := (instancesByPort (ports s))(p := None)\<rparr>\<rparr> in
             case instancesByName (ports s1) n of
               None \<Rightarrow> (Inl KeyError, s1, ev)
             | Some l \<Rightarrow>
                 (case list_remove instance l of
                    Inl e \<Rightarrow> (Inl e, s1, ev)
                  | Inr l' \<Rightarrow>
                      (Inr (), s1\<lparr>ports := (ports s1)\<lparr>instancesByName :=
                                     (instancesByName (ports s1))(n \<mapsto> l')\<rparr>\<rparr>, ev))))"

section \<open>DockerProxyServer\<close>

text \<open>
  The attribute \<^verbatim>\<open>self.dockerinstance\<close> of a session: \<open>None\<close> while it has not been
  assigned, \<open>Some None\<close> for Python's \<^verbatim>\<open>None\<close>, \<open>Some (Some i)\<close> for an instance.
  \<open>outerport\<close> is \<^verbatim>\<open>self.factory.outerport\<close>. What Twisted itself does with the two
  connections (the client factory, \<^verbatim>\<open>ProxyServer.connectionLost\<close>) is not part of the
  model; the calls the program makes on the transport and the reactor are events.
\<close>

record session =
  outerport :: int
  dockerinstance :: "DockerInstance option option"

definition rejection :: string where
  "rejection = ''Maximum connection-count reached. Try again later.'' @ [CHR 0x0D, CHR 0x0A]"

definition connectionMade ::
  "world \<Rightarrow> state \<Rightarrow> session \<Rightarrow> ((exn + unit) \<times> session \<times> state \<times> event list) option" where
  "connectionMade w s self =
     (case create w s (outerport self) of
        None \<Rightarrow> None
      | Some (Inl e, s', ev) \<Rightarrow> Some (Inl e, self, s', [PauseProducing] @ ev)
      | Some (Inr None, s', ev) \<Rightarrow>
          Some (Inr (), self\<lparr>dockerinstance := Some None\<rparr>, s',
                [PauseProducing] @ ev @ [TransportWrite rejection, LoseConnection])
      | Some (Inr (Some i), s', ev) \<Rightarrow>
          Some (Inr (), self\<lparr>dockerinstance := Some (Some i)\<rparr>, s',
                [PauseProducing] @ ev @ [ConnectTCP ''0.0.0.0'' (middleport i)]))"

definition connectionLost ::
  "world \<Rightarrow> state \<Rightarrow> session \<Rightarrow> (exn + unit) \<times> session \<times> state \<times> event list" where
  "connectionLost w s self =
     (case dockerinstance self of
        None \<Rightarrow> (Inl AttributeError, self, s, [])
      | Some None \<Rightarrow> (Inr (), self\<lparr>dockerinstance := Some None\<rparr>, s, [])
      | Some (Some i) \<Rightarrow>
          (case destroy w s i of
             (Inl e, s', ev) \<Rightarrow> (Inl e, self, s', ev)
           | (Inr u, s', ev) \<Rightarrow> (Inr (), self\<lparr>dockerinstance := Some None\<rparr>, s', ev)))"

section \<open>Sequences of create and destroy\<close>

datatype op = Create int world | Destroy DockerInstance world

text \<open>
  An exception of one call goes to the reactor, which logs it and goes on, so the next
  call meets the state the failed one left. A call that never returns ends the run.
\<close>

definition step :: "state \<Rightarrow> op \<Rightarrow> state option" where
  "step s x =
     (case x of
        Create outerport' w \<Rightarrow> map_option (\<lambda>r. fst (snd r)) (create w s outerport')
      | Destroy i w \<Rightarrow> Some (fst (snd (destroy w s i))))"

fun run :: "state \<Rightarrow> op list \<Rightarrow> state option" where
  "run s [] = Some s"
| "run s (x # xs) = (case step s x of None \<Rightarrow> None | Some s' \<Rightarrow> run s' xs)"


section \<open>Observations\<close>

text \<open>
  \<open>shell_commands\<close> and \<open>printed\<close> read the commands handed to the shell and the lines
  printed off an event list. \<open>ready\<close> is one attempt of \<^verbatim>\<open>__isPortOpen\<close> returning
  \<^verbatim>\<open>True\<close>, and \<open>polls w self n\<close> the events of the first \<open>n\<close> attempts, each
  followed by its \<^verbatim>\<open>time.sleep(step)\<close>.
\<close>

fun shell_commands :: "event list \<Rightarrow> string list" where
  "shell_commands [] = []"
| "shell_commands (Shell c # es) = c # shell_commands es"
| "shell_commands (e # es) = shell_commands es"

fun printed :: "event list \<Rightarrow> string list" where
  "printed [] = []"
| "printed (Print m # es) = m # printed es"
| "printed (e # es) = printed es"

definition ready :: "DockerInstance \<Rightarrow> attempt \<Rightarrow> bool" where
  "ready self a = (fst (isPortOpen self (1 / 10) a) = Inr True)"

definition polls :: "world \<Rightarrow> DockerInstance \<Rightarrow> nat \<Rightarrow> event list" where
  "polls w self n =
     concat (map (\<lambda>i. snd (isPortOpen self (1 / 10) (attempts w i)) @ [Sleep (1 / 10)]) [0..<n])"

text \<open>
  The object once \<^verbatim>\<open>docker run\<close> has printed \<open>out\<close> and the output of
  \<^verbatim>\<open>docker port\<close> has been parsed to the port \<open>p\<close>, and the events up to there.
\<close>

definition launched :: "DockerInstance \<Rightarrow> string \<Rightarrow> int \<Rightarrow> DockerInstance" where
  "launched self out p = self\<lparr>instanceid := Some (strip out), middleport := Some p\<rparr>"

definition launch_events :: "string \<Rightarrow> string \<Rightarrow> int \<Rightarrow> event list" where
  "launch_events cmd out p =
     [Shell cmd, Shell (''docker port '' @ strip out),
      Print (''Started instance on middleport '' @ str_int p @ '' with ID '' @ strip out)]"

text \<open>
  The parts of \<^verbatim>\<open>create\<close> by name: the instances registered for an image, the limit
  check that makes it return \<^verbatim>\<open>None\<close>, the object it constructs, and the state after
  it has registered an instance.
\<close>

definition instances :: "state \<Rightarrow> string \<Rightarrow> DockerInstance list" where
  "instances s n = (case instancesByName (ports s) n of None \<Rightarrow> [] | Some l \<Rightarrow> l)"

definition denied :: "state \<Rightarrow> config \<Rightarrow> bool" where
  "denied s cfg = (0 < cfg_limit cfg \<and> cfg_imagename cfg \<in> dom (instancesByName (ports s))
                    \<and> cfg_limit cfg \<le> int (icount s (cfg_imagename cfg)))"

definition new_instance :: "state \<Rightarrow> config \<Rightarrow> DockerInstance" where
  "new_instance s cfg = \<lparr>oid = objects s, dockerparams = cfg_params cfg, imagename = cfg_imagename cfg,
                         middleport = None, instanceid = None\<rparr>"

definition register :: "state \<Rightarrow> string \<Rightarrow> DockerInstance \<Rightarrow> state" where
  "register s n i =
     s\<lparr>objects := Suc (objects s),
       ports := (ports s)\<lparr>instancesByPort := (instancesByPort (ports s))(middleport i \<mapsto> i),
                          instancesByName := (instancesByName (ports s))(n \<mapsto> instances s n @ [i])\<rparr>\<rparr>"

text \<open>
  \<open>set_limit\<close> rewrites the limit configured for a port, and \<open>observe\<close> is everything
  \<^verbatim>\<open>create\<close> returns and leaves behind except the configuration table.
\<close>

definition set_limit :: "state \<Rightarrow> int \<Rightarrow> int \<Rightarrow> state" where
  "set_limit s p l =
     (case imageParams (ports s) p of
        None \<Rightarrow> s
      | Some cfg \<Rightarrow> s\<lparr>ports := (ports s)\<lparr>imageParams := (imageParams (ports s))(p \<mapsto> cfg\<lparr>cfg_limit := l\<rparr>)\<rparr>\<rparr>)"

definition observe ::
  "((exn + DockerInstance option) \<times> state \<times> event list) option
     \<Rightarrow> ((exn + DockerInstance option) \<times> (int option \<rightharpoonup> DockerInstance)
          \<times> (string \<rightharpoonup> DockerInstance list) \<times> nat \<times> event list) option" where
  "observe r =
     map_option (\<lambda>x. (fst x, instancesByPort (ports (fst (snd x))),
                       instancesByName (ports (fst (snd x))), objects (fst (snd x)), snd (snd x))) r"

section \<open>Example inputs\<close>

text \<open>
  One image \<open>web\<close> with limit 1 behind port 2222. In \<open>world0\<close> the container starts,
  its port is mapped to 12345, the first connection attempt is refused and the second
  reads a byte. In \<open>world_launch_fails\<close> \<^verbatim>\<open>docker run\<close> exits with 125; in
  \<open>world_never_ready\<close> every attempt is refused and the clock advances 3 seconds a reading.
  The readings are small whole numbers, whose sum with 5 the machine computes exactly.
  In \<open>world_format_raises\<close> the parameters \<open>-P {1} web\<close> of \<open>state_braces\<close> make
  \<^verbatim>\<open>cmd.format(0)\<close> raise \<^verbatim>\<open>IndexError\<close>.
\<close>

definition world0 :: world where
  "world0 = \<lparr>format0 = (\<lambda>s. Inl ValueError),
            to_int = (\<lambda>s. if s = ''12345'' then Some 12345 else None),
            float_add = (\<lambda>a b. a + b),
            run_result = Inr (0, ''c0ffee'' @ [CHR 0x0A]),
            port_result = Inr (0, ''22/tcp -> 0.0.0.0:12345''),
            kill_result = Inr (0, ''c0ffee''),
            rm_result = Inr (0, ''c0ffee''),
            clock = (\<lambda>k. real k),
            attempts = (\<lambda>k. if k = 0 then ConnectError else Received [1])\<rparr>"

definition world_launch_fails :: world where
  "world_launch_fails = world0\<lparr>run_result := Inr (125, ''Unable to find image'')\<rparr>"

definition world_never_ready :: world where
  "world_never_ready = world0\<lparr>clock := (\<lambda>k. 3 * real k), attempts := (\<lambda>k. ConnectError)\<rparr>"

definition world_format_raises :: world where
  "world_format_raises = world0\<lparr>format0 := (\<lambda>s. Inl IndexError)\<rparr>"

definition config0 :: config where
  "config0 = \<lparr>cfg_imagename = ''web'', cfg_params = ''-P web'', cfg_limit = 1\<rparr>"

definition fresh :: "nat \<Rightarrow> DockerInstance" where
  "fresh k = \<lparr>oid = k, dockerparams = ''-P web'', imagename = ''web'',
              middleport = None, instanceid = None\<rparr>"

definition instance0 :: DockerInstance where
  "instance0 = \<lparr>oid = 0, dockerparams = ''-P web'', imagename = ''web'',
                middleport = Some 12345, instanceid = Some ''c0ffee''\<rparr>"

definition instance1 :: DockerInstance where
  "instance1 = \<lparr>oid = 1, dockerparams = ''-P web'', imagename = ''web'',
                middleport = Some 12345, instanceid = Some ''c0ffee''\<rparr>"

definition state_new :: state where
  "state_new = \<lparr>ports = \<lparr>instancesByPort = Map.empty, instancesByName = Map.empty,
                           imageParams = [2222 \<mapsto> config0]\<rparr>,
                objects = 0\<rparr>"

definition state_braces :: state where
  "state_braces =
     \<lparr>ports = \<lparr>instancesByPort = Map.empty, instancesByName = Map.empty,
               imageParams = [2222 \<mapsto> \<lparr>cfg_imagename = ''web'', cfg_params = ''-P {1} web'',
                                        cfg_limit = 1\<rparr>]\<rparr>,
      objects = 0\<rparr>"

definition state0 :: state where
  "state0 = \<lparr>ports = \<lparr>instancesByPort = [Some 12345 \<mapsto> instance0],
                        instancesByName = [''web'' \<mapsto> [instance0]],
                        imageParams = [2222 \<mapsto> config0]\<rparr>,
             objects = 1\<rparr>"

definition state_idle :: state where
  "state_idle = \<lparr>ports = \<lparr>instancesByPort = Map.empty, instancesByName = [''web'' \<mapsto> []],
                            imageParams = [2222 \<mapsto> config0]\<rparr>,
                 objects = 1\<rparr>"

definition state1 :: state where
  "state1 = \<lparr>ports = \<lparr>instancesByPort = [Some 12345 \<mapsto> instance1],
                        instancesByName = [''web'' \<mapsto> [instance1]],
                        imageParams = [2222 \<mapsto> config0]\<rparr>,
             objects = 2\<rparr>"

definition state_failed_launch :: state where
  "state_failed_launch = \<lparr>ports = \<lparr>instancesByPort = [None \<mapsto> fresh 0],
                                     instancesByName = [''web'' \<mapsto> [fresh 0]],
                                     imageParams = [2222 \<mapsto> config0]\<rparr>,
                          objects = 1\<rparr>"

definition session0 :: session where
  "session0 = \<lparr>outerport = 2222, dockerinstance = None\<rparr>"

definition events_ready :: "event list" where
  "events_ready =
     [Shell ''docker run --detach -P web'', Shell ''docker port c0ffee'',
      Print ''Started instance on middleport 12345 with ID c0ffee'',
      SockConnect ''0.0.0.0'' (Some 12345), SockClose, Sleep (1 / 10),
      SockConnect ''0.0.0.0'' (Some 12345), SockSetTimeout (1 / 10), SockRecv 1, SockClose]"

definition events_launch_fails :: "event list" where
  "events_launch_fails =
     [Shell ''docker run --detach -P web'', Print ''Failed to start instance'',
      Print ''rc=125, out=Unable to find image'']"

definition events_never_ready :: "event list" where
  "events_never_ready =
     [Shell ''docker run --detach -P web'', Shell ''docker port c0ffee'',
      Print ''Started instance on middleport 12345 with ID c0ffee'',
      SockConnect ''0.0.0.0'' (Some 12345), SockClose, Sleep (1 / 10),
      Print ''Killing and removing c0ffee (middleport 12345)'',
      Shell ''docker kill c0ffee'', Shell ''docker rm c0ffee'']"

section \<open>The example strings\<close>

lemma str_int_1: "str_int 1 = ''1''"
  by (simp add: str_int_def str_nat.simps digit_def)

lemma str_125: "str_int 125 = ''125''"
  by (simp add: str_int_def str_nat.simps [of 125] str_nat.simps [of 12] str_nat.simps [of 1]
      str_nat.simps [of "Suc 0"] digit_def)

lemma str_12345: "str_int 12345 = ''12345''"
  by (simp add: str_int_def str_nat.simps [of 12345] str_nat.simps [of 1234] str_nat.simps [of 123]
      str_nat.simps [of 12] str_nat.simps [of 1] str_nat.simps [of "Suc 0"] digit_def)

lemma parse0: "parse_port world0 ''22/tcp -> 0.0.0.0:12345'' = Some 12345"
  by (simp add: parse_port_def world0_def strip_def isspace_def Let_def)

lemma parse_port_to_int: "to_int w = to_int w' \<Longrightarrow> parse_port w out = parse_port w' out"
  by (simp add: parse_port_def Let_def)

section \<open>stop\<close>

text \<open>
  C3, as the claim states it, fails twice. \<^verbatim>\<open>stop\<close> returns right after a failed
  \<^verbatim>\<open>docker kill\<close>: with the kill answering exit code 1 for instance \<open>c0ffee\<close>,
  \<^verbatim>\<open>docker rm c0ffee\<close> is not among the commands run. And \<^verbatim>\<open>stop\<close> has no exception
  handler: when \<^verbatim>\<open>getstatusoutput\<close> raises \<^verbatim>\<open>UnicodeDecodeError\<close> on the output of the
  kill, \<^verbatim>\<open>stop\<close> raises it to its caller.
\<close>

theorem stop_skips_remove_counterexample:
  "kill_result (world0\<lparr>kill_result := Inr (1, ''No such container'')\<rparr>) = Inr (1, ''No such container'')
   \<and> ''docker rm c0ffee'' \<notin> set (shell_commands
         (snd (stop (world0\<lparr>kill_result := Inr (1, ''No such container'')\<rparr>) instance0)))
   \<and> fst (stop (world0\<lparr>kill_result := Inl UnicodeDecodeError\<rparr>) instance0) = Inl UnicodeDecodeError
   \<and> ''docker rm c0ffee'' \<notin> set (shell_commands
         (snd (stop (world0\<lparr>kill_result := Inl UnicodeDecodeError\<rparr>) instance0)))"
  by (simp add: stop_def world0_def instance0_def fmt_str_def fmt_int_def)

text \<open>
  C3, amended: every call of \<^verbatim>\<open>stop\<close> attempts the terminate step (\<^verbatim>\<open>docker kill\<close>);
  the remove step (\<^verbatim>\<open>docker rm\<close>) is attempted exactly when the terminate step exited
  with code 0. A step that exits with another code is reported, not raised: \<^verbatim>\<open>stop\<close>
  prints one failure line for it and returns \<^verbatim>\<open>False\<close>; it returns \<^verbatim>\<open>True\<close> exactly
  when both steps exited with 0. \<^verbatim>\<open>stop\<close> raises to its caller exactly when
  \<^verbatim>\<open>getstatusoutput\<close> raises in a step it attempts, and then raises that exception.
\<close>

theorem stop_terminate_then_remove:
  "shell_commands (snd (stop w self)) =
     (case kill_result w of
        Inl e \<Rightarrow> [''docker kill '' @ fmt_str (instanceid self)]
      | Inr (rc, out) \<Rightarrow>
          if rc = 0
          then [''docker kill '' @ fmt_str (instanceid self), ''docker rm '' @ fmt_str (instanceid self)]
          else [''docker kill '' @ fmt_str (instanceid self)])
   \<and> fst (stop w self) =
       (case kill_result w of
          Inl e \<Rightarrow> Inl e
        | Inr (rc, out) \<Rightarrow>
            if rc \<noteq> 0 then Inr False
            else (case rm_result w of Inl e \<Rightarrow> Inl e | Inr (rc2, out2) \<Rightarrow> Inr (rc2 = 0)))
   \<and> ((\<exists>e. fst (stop w self) = Inl e) \<longleftrightarrow>
          (\<exists>e. kill_result w = Inl e) \<or> (\<exists>out e. kill_result w = Inr (0, out) \<and> rm_result w = Inl e))
   \<and> printed (snd (stop w self)) =
       [''Killing and removing '' @ fmt_str (instanceid self)
          @ '' (middleport '' @ fmt_int (middleport self) @ '')'']
       @ (case kill_result w of
            Inl e \<Rightarrow> []
          | Inr (rc, out) \<Rightarrow>
              if rc \<noteq> 0
              then [''Failed to stop instance for middleport '' @ fmt_int (middleport self)
                      @ '', id '' @ fmt_str (instanceid self)]
              else (case rm_result w of
                      Inl e \<Rightarrow> []
                    | Inr (rc2, out2) \<Rightarrow>
                        if rc2 \<noteq> 0
                        then [''Failed to remove instance for middleport '' @ fmt_int (middleport self)
                                @ '', id '' @ fmt_str (instanceid self)]
                        else []))"
  by (auto simp: stop_def Let_def split: sum.splits prod.splits)

section \<open>The readiness predicate\<close>

text \<open>
  C8: \<^verbatim>\<open>__isPortOpen\<close> returns \<^verbatim>\<open>True\<close> if and only if the connection to the host
  port succeeded and the read returned at least one byte; a refused connection, a failed
  or timed-out read, and a read of zero bytes all return \<^verbatim>\<open>False\<close>. (\<open>valid_port\<close>: the
  port is a number in 0..65535, which a connection that succeeds has.)
\<close>

theorem isPortOpen_ready_iff:
  "(fst (isPortOpen self t a) = Inr True
      \<longleftrightarrow> valid_port self \<and> (\<exists>d. a = Received d \<and> 0 < length d))
   \<and> (valid_port self \<and> (a = ConnectError \<or> a = RecvError \<or> a = Received [])
      \<longrightarrow> fst (isPortOpen self t a) = Inr False)"
  by (auto simp: isPortOpen_def valid_port_def split: option.splits attempt.splits)

theorem isPortOpen_ready_iff_witness:
  "fst (isPortOpen instance0 (1 / 10) (Received [1])) = Inr True
   \<and> fst (isPortOpen instance0 (1 / 10) (Received [])) = Inr False
   \<and> fst (isPortOpen instance0 (1 / 10) ConnectError) = Inr False
   \<and> fst (isPortOpen instance0 (1 / 10) RecvError) = Inr False"
  using isPortOpen_ready_iff [of instance0 "1 / 10" "Received [1]"]
    isPortOpen_ready_iff [of instance0 "1 / 10" "Received []"]
    isPortOpen_ready_iff [of instance0 "1 / 10" ConnectError]
    isPortOpen_ready_iff [of instance0 "1 / 10" RecvError]
  by (simp add: valid_port_def instance0_def)

section \<open>Readiness polling\<close>

lemma isPortOpen_valid:
  "valid_port self \<Longrightarrow> fst (isPortOpen self (1 / 10) a) = Inr (ready self a)"
  by (auto simp: isPortOpen_def valid_port_def ready_def split: option.splits attempt.splits)

text \<open>
  The loop from attempt \<open>k\<close> on, by induction on the number of attempts left: it ends
  with \<^verbatim>\<open>False\<close> at the first reading past the deadline when no attempt before succeeded,
  and with \<^verbatim>\<open>True\<close> at the first attempt that succeeds while the readings are in time.
\<close>

lemma loop_timeout:
  assumes "valid_port self"
    and "\<forall>i. k \<le> i \<and> i < n \<longrightarrow> clock w (Suc i) \<le> float_add w started timeout \<and> \<not> ready self (attempts w i)"
    and "float_add w started timeout < clock w (Suc n)"
    and "k \<le> n"
  shows "waitForOpenPort_loop w self started timeout stp k evs =
           Some (Inr False, evs @ concat (map (\<lambda>i. snd (isPortOpen self (1 / 10) (attempts w i)) @ [Sleep stp]) [k..<n]))"
  using assms(2,4)
proof (induction "n - k" arbitrary: k evs)
  case 0
  then have "k = n" by simp
  with assms(3) show ?case
    by (subst waitForOpenPort_loop.simps) simp
next
  case (Suc d)
  then have kn: "k < n" by linarith
  with Suc.prems have c: "clock w (Suc k) \<le> float_add w started timeout" and r: "\<not> ready self (attempts w k)"
    by auto
  from r assms(1) have f: "fst (isPortOpen self (1 / 10) (attempts w k)) = Inr False"
    by (simp add: isPortOpen_valid)
  have ih: "waitForOpenPort_loop w self started timeout stp (Suc k)
              (evs @ snd (isPortOpen self (1 / 10) (attempts w k)) @ [Sleep stp])
            = Some (Inr False, (evs @ snd (isPortOpen self (1 / 10) (attempts w k)) @ [Sleep stp])
                 @ concat (map (\<lambda>i. snd (isPortOpen self (1 / 10) (attempts w i)) @ [Sleep stp]) [Suc k..<n]))"
    using Suc.hyps(2) Suc.prems kn by (intro Suc.hyps(1)) auto
  show ?case
    using c f ih kn by (subst waitForOpenPort_loop.simps) (simp add: Let_def upt_conv_Cons)
qed

lemma loop_success:
  assumes "valid_port self"
    and "\<forall>i. k \<le> i \<and> i \<le> j \<longrightarrow> clock w (Suc i) \<le> float_add w started timeout"
    and "\<forall>i. k \<le> i \<and> i < j \<longrightarrow> \<not> ready self (attempts w i)"
    and "ready self (attempts w j)"
    and "k \<le> j"
  shows "waitForOpenPort_loop w self started timeout stp k evs =
           Some (Inr True, evs @ concat (map (\<lambda>i. snd (isPortOpen self (1 / 10) (attempts w i)) @ [Sleep stp]) [k..<j])
                            @ snd (isPortOpen self (1 / 10) (attempts w j)))"
  using assms(2,3,5)
proof (induction "j - k" arbitrary: k evs)
  case 0
  then have kj: "k = j" by simp
  from assms(1,4) have f: "fst (isPortOpen self (1 / 10) (attempts w j)) = Inr True"
    by (simp add: isPortOpen_valid)
  from 0 kj have c: "clock w (Suc j) \<le> float_add w started timeout" by auto
  show ?case
    using c f kj by (subst waitForOpenPort_loop.simps) (simp add: Let_def)
next
  case (Suc d)
  then have kj: "k < j" by linarith
  with Suc.prems have c: "clock w (Suc k) \<le> float_add w started timeout" and r: "\<not> ready self (attempts w k)"
    by auto
  from r assms(1) have f: "fst (isPortOpen self (1 / 10) (attempts w k)) = Inr False"
    by (simp add: isPortOpen_valid)
  have ih: "waitForOpenPort_loop w self started timeout stp (Suc k)
              (evs @ snd (isPortOpen self (1 / 10) (attempts w k)) @ [Sleep stp])
            = Some (Inr True, (evs @ snd (isPortOpen self (1 / 10) (attempts w k)) @ [Sleep stp])
                 @ concat (map (\<lambda>i. snd (isPortOpen self (1 / 10) (attempts w i)) @ [Sleep stp]) [Suc k..<j])
                 @ snd (isPortOpen self (1 / 10) (attempts w j)))"
    using Suc.hyps(2) Suc.prems kj by (intro Suc.hyps(1)) auto
  show ?case
    using c f ih kj by (subst waitForOpenPort_loop.simps) (simp add: Let_def upt_conv_Cons)
qed

lemma waitForOpenPort_timeout:
  assumes "valid_port self"
    and "\<forall>i<n. clock w (Suc i) \<le> float_add w (clock w 0) 5 \<and> \<not> ready self (attempts w i)"
    and "float_add w (clock w 0) 5 < clock w (Suc n)"
  shows "waitForOpenPort w self = Some (Inr False, polls w self n)"
  using loop_timeout [of self 0 n w "clock w 0" 5 "1 / 10" "[]"] assms
  by (simp add: waitForOpenPort_def polls_def)

lemma waitForOpenPort_success:
  assumes "valid_port self"
    and "\<forall>i\<le>j. clock w (Suc i) \<le> float_add w (clock w 0) 5"
    and "\<forall>i<j. \<not> ready self (attempts w i)"
    and "ready self (attempts w j)"
  shows "waitForOpenPort w self =
           Some (Inr True, polls w self j @ snd (isPortOpen self (1 / 10) (attempts w j)))"
  using loop_success [of self 0 j w "clock w 0" 5 "1 / 10" "[]"] assms
  by (simp add: waitForOpenPort_def polls_def)


section \<open>start\<close>

lemma launched_valid: "0 \<le> p \<Longrightarrow> p \<le> 65535 \<Longrightarrow> valid_port (launched self out p)"
  by (simp add: valid_port_def launched_def)

lemma start_launched:
  assumes "py_format0 w (''docker run --detach '' @ dockerparams self) = Inr cmd"
    and "run_result w = Inr (0, out)"
    and "port_result w = Inr (0, pout)"
    and "parse_port w pout = Some p"
  shows "start w self =
     (case waitForOpenPort w (launched self out p) of
        None \<Rightarrow> None
      | Some (Inl e, ev3) \<Rightarrow> Some (Inl e, launched self out p, launch_events cmd out p @ ev3)
      | Some (Inr True, ev3) \<Rightarrow>
          Some (Inr (Some (strip out)), launched self out p, launch_events cmd out p @ ev3)
      | Some (Inr False, ev3) \<Rightarrow>
          Some (case fst (stop w (launched self out p)) of Inl e \<Rightarrow> Inl e | Inr b \<Rightarrow> Inr None,
                launched self out p,
                launch_events cmd out p @ ev3 @ snd (stop w (launched self out p))))"
  using assms
  by (simp add: start_def Let_def launched_def launch_events_def fmt_str_def fmt_int_def
      split: option.split prod.split sum.split bool.split)

lemma start_ready:
  assumes "py_format0 w (''docker run --detach '' @ dockerparams self) = Inr cmd"
    and "run_result w = Inr (0, out)"
    and "port_result w = Inr (0, pout)"
    and "parse_port w pout = Some p"
    and "0 \<le> p" and "p \<le> 65535"
    and "\<forall>i\<le>j. clock w (Suc i) \<le> float_add w (clock w 0) 5"
    and "\<forall>i<j. \<not> ready (launched self out p) (attempts w i)"
    and "ready (launched self out p) (attempts w j)"
  shows "start w self =
           Some (Inr (Some (strip out)), launched self out p,
                 launch_events cmd out p @ polls w (launched self out p) j
                   @ snd (isPortOpen (launched self out p) (1 / 10) (attempts w j)))"
proof -
  have "waitForOpenPort w (launched self out p) =
           Some (Inr True, polls w (launched self out p) j
                   @ snd (isPortOpen (launched self out p) (1 / 10) (attempts w j)))"
    using assms(5-9) by (intro waitForOpenPort_success launched_valid)
  then show ?thesis
    by (simp add: start_launched [OF assms(1-4)])
qed

lemma start_timeout:
  assumes "py_format0 w (''docker run --detach '' @ dockerparams self) = Inr cmd"
    and "run_result w = Inr (0, out)"
    and "port_result w = Inr (0, pout)"
    and "parse_port w pout = Some p"
    and "0 \<le> p" and "p \<le> 65535"
    and "\<forall>i<n. clock w (Suc i) \<le> float_add w (clock w 0) 5
                 \<and> \<not> ready (launched self out p) (attempts w i)"
    and "float_add w (clock w 0) 5 < clock w (Suc n)"
  shows "start w self =
           Some (case fst (stop w (launched self out p)) of Inl e \<Rightarrow> Inl e | Inr b \<Rightarrow> Inr None,
                 launched self out p,
                 launch_events cmd out p @ polls w (launched self out p) n
                   @ snd (stop w (launched self out p)))"
proof -
  have "waitForOpenPort w (launched self out p) = Some (Inr False, polls w (launched self out p) n)"
    using assms(5-8) by (intro waitForOpenPort_timeout launched_valid)
  then show ?thesis
    by (simp add: start_launched [OF assms(1-4)])
qed



lemma format_fresh:
  "py_format0 w (''docker run --detach '' @ dockerparams (fresh k)) = Inr ''docker run --detach -P web''"
  by (simp add: py_format0_def fresh_def)

lemma world0_answers:
  "run_result world0 = Inr (0, ''c0ffee'' @ [CHR 0x0A])"
  "port_result world0 = Inr (0, ''22/tcp -> 0.0.0.0:12345'')"
  by (simp_all add: world0_def)

lemma world_never_ready_answers:
  "run_result world_never_ready = Inr (0, ''c0ffee'' @ [CHR 0x0A])"
  "port_result world_never_ready = Inr (0, ''22/tcp -> 0.0.0.0:12345'')"
  by (simp_all add: world_never_ready_def world0_def)

lemma parse_never_ready: "parse_port world_never_ready ''22/tcp -> 0.0.0.0:12345'' = Some 12345"
  using parse0 parse_port_to_int [of world_never_ready world0 "''22/tcp -> 0.0.0.0:12345''"]
  by (simp add: world_never_ready_def)

lemma launched_fresh:
  "launched (fresh k) (''c0ffee'' @ [CHR 0x0A]) 12345 =
     \<lparr>oid = k, dockerparams = ''-P web'', imagename = ''web'',
      middleport = Some 12345, instanceid = Some ''c0ffee''\<rparr>"
  by (simp add: launched_def fresh_def strip_def isspace_def)

lemma launch_events_fresh:
  "launch_events ''docker run --detach -P web'' (''c0ffee'' @ [CHR 0x0A]) 12345 =
     [Shell ''docker run --detach -P web'', Shell ''docker port c0ffee'',
      Print ''Started instance on middleport 12345 with ID c0ffee'']"
  by (simp add: launch_events_def str_12345 strip_def isspace_def)

lemma stop_never_ready:
  "stop world_never_ready \<lparr>oid = k, dockerparams = ''-P web'', imagename = ''web'',
      middleport = Some 12345, instanceid = Some ''c0ffee''\<rparr>
   = (Inr True, [Print ''Killing and removing c0ffee (middleport 12345)'',
           Shell ''docker kill c0ffee'', Shell ''docker rm c0ffee''])"
  using str_12345 by (simp add: stop_def world_never_ready_def world0_def fmt_str_def fmt_int_def)


section \<open>The example runs of start\<close>

lemma ready0: "ready \<lparr>oid = k, dockerparams = ''-P web'', imagename = ''web'',
            middleport = Some 12345, instanceid = Some ''c0ffee''\<rparr> (attempts world0 i) = (i \<noteq> 0)"
  by (simp add: ready_def isPortOpen_def world0_def)

lemma start_world0:
  "start world0 (fresh k) =
     Some (Inr (Some ''c0ffee''),
           \<lparr>oid = k, dockerparams = ''-P web'', imagename = ''web'',
            middleport = Some 12345, instanceid = Some ''c0ffee''\<rparr>,
           [Shell ''docker run --detach -P web'', Shell ''docker port c0ffee'',
            Print ''Started instance on middleport 12345 with ID c0ffee'',
            SockConnect ''0.0.0.0'' (Some 12345), SockClose, Sleep (1 / 10),
            SockConnect ''0.0.0.0'' (Some 12345), SockSetTimeout (1 / 10), SockRecv 1, SockClose])"
proof -
  let ?i = "\<lparr>oid = k, dockerparams = ''-P web'', imagename = ''web'',
            middleport = Some 12345, instanceid = Some ''c0ffee''\<rparr>"
  have r: "(0::int) \<le> 12345" "(12345::int) \<le> 65535" by simp_all
  have s: "strip (''c0ffee'' @ [CHR 0x0A]) = ''c0ffee''" by (simp add: strip_def isspace_def)
  have d: "\<forall>i\<le>1. clock world0 (Suc i) \<le> float_add world0 (clock world0 0) 5"
    by (simp add: world0_def)
  have n: "\<forall>i<1. \<not> ready ?i (attempts world0 i)" by (simp add: ready0)
  have y: "ready ?i (attempts world0 1)" by (simp add: ready0)
  have e: "polls world0 ?i 1 = [SockConnect ''0.0.0.0'' (Some 12345), SockClose, Sleep (1 / 10)]"
    by (simp add: polls_def isPortOpen_def world0_def)
  have f: "snd (isPortOpen ?i (1 / 10) (attempts world0 1))
      = [SockConnect ''0.0.0.0'' (Some 12345), SockSetTimeout (1 / 10), SockRecv 1, SockClose]"
    by (simp add: isPortOpen_def world0_def)
  from start_ready [OF format_fresh [of world0 k] world0_answers parse0 r,
      unfolded launched_fresh s launch_events_fresh, OF d n y]
  show ?thesis unfolding e f by simp
qed

lemma start_launch_fails:
  "start world_launch_fails (fresh k) =
     Some (Inr None, fresh k,
           [Shell ''docker run --detach -P web'', Print ''Failed to start instance'',
            Print ''rc=125, out=Unable to find image''])"
  using str_125
  by (simp add: start_def py_format0_def fresh_def world_launch_fails_def world0_def)

lemma start_never_ready:
  "start world_never_ready (fresh k) =
     Some (Inr None,
           \<lparr>oid = k, dockerparams = ''-P web'', imagename = ''web'',
            middleport = Some 12345, instanceid = Some ''c0ffee''\<rparr>,
           [Shell ''docker run --detach -P web'', Shell ''docker port c0ffee'',
            Print ''Started instance on middleport 12345 with ID c0ffee'',
            SockConnect ''0.0.0.0'' (Some 12345), SockClose, Sleep (1 / 10),
            Print ''Killing and removing c0ffee (middleport 12345)'',
            Shell ''docker kill c0ffee'', Shell ''docker rm c0ffee''])"
proof -
  let ?w = world_never_ready
  let ?i = "\<lparr>oid = k, dockerparams = ''-P web'', imagename = ''web'',
            middleport = Some 12345, instanceid = Some ''c0ffee''\<rparr>"
  have r: "(0::int) \<le> 12345" "(12345::int) \<le> 65535" by simp_all
  have s: "strip (''c0ffee'' @ [CHR 0x0A]) = ''c0ffee''" by (simp add: strip_def isspace_def)
  have d: "\<forall>i<1. clock ?w (Suc i) \<le> float_add ?w (clock ?w 0) 5 \<and> \<not> ready ?i (attempts ?w i)"
    by (simp add: world_never_ready_def world0_def ready_def isPortOpen_def)
  have d': "float_add ?w (clock ?w 0) 5 < clock ?w (Suc 1)"
    by (simp add: world_never_ready_def world0_def)
  have e: "polls ?w ?i 1 = [SockConnect ''0.0.0.0'' (Some 12345), SockClose, Sleep (1 / 10)]"
    by (simp add: polls_def isPortOpen_def world_never_ready_def)
  from start_timeout [OF format_fresh [of world_never_ready k] world_never_ready_answers
      parse_never_ready r, unfolded launched_fresh s launch_events_fresh, OF d d']
  show ?thesis unfolding e stop_never_ready by simp
qed

section \<open>create, case by case\<close>

lemma icount_instances: "icount s n = length (instances s n)"
  by (simp add: icount_def instances_def split: option.splits)

lemma icount_dom: "0 < icount s n \<Longrightarrow> n \<in> dom (instancesByName (ports s))"
  by (auto simp: icount_def split: option.splits)

lemma create_unregistered:
  "imageParams (ports s) p = None \<Longrightarrow> create w s p = Some (Inl KeyError, s, [])"
  by (simp add: create_def)

lemma create_denied:
  "imageParams (ports s) p = Some cfg \<Longrightarrow> denied s cfg \<Longrightarrow> \<exists>ev. create w s p = Some (Inr None, s, ev)"
  by (simp add: create_def denied_def Let_def)

lemma create_admitted:
  assumes "imageParams (ports s) p = Some cfg" and "\<not> denied s cfg"
  shows "create w s p =
     (case start w (new_instance s cfg) of
        None \<Rightarrow> None
      | Some (Inl e, i, ev) \<Rightarrow> Some (Inl e, s\<lparr>objects := Suc (objects s)\<rparr>, ev)
      | Some (Inr x, i, ev) \<Rightarrow> Some (Inr (Some i), register s (cfg_imagename cfg) i, ev))"
proof -
  have d: "\<not> (0 < cfg_limit cfg \<and> cfg_imagename cfg \<in> dom (instancesByName (ports s))
                    \<and> cfg_limit cfg \<le> int (icount s (cfg_imagename cfg)))"
    using assms(2) by (simp add: denied_def)
  show ?thesis
  proof (cases "start w (new_instance s cfg)")
    case None
    then show ?thesis using assms(1) d by (simp add: create_def Let_def new_instance_def)
  next
    case (Some r)
    obtain x i ev where r: "r = (x, i, ev)" by (cases r) auto
    show ?thesis
    proof (cases x)
      case (Inl e)
      then show ?thesis using assms(1) d Some r by (simp add: create_def Let_def new_instance_def)
    next
      case (Inr y)
      show ?thesis
      proof (cases "instancesByName (ports s) (cfg_imagename cfg)")
        case None
        then show ?thesis using assms(1) d Some r Inr
          by (simp add: create_def Let_def new_instance_def register_def instances_def)
      next
        case (Some l)
        then show ?thesis using assms(1) d \<open>start w (new_instance s cfg) = Some r\<close> r Inr
          by (simp add: create_def Let_def new_instance_def register_def instances_def)
      qed
    qed
  qed
qed


lemma instances_register:
  "instances (register s n i) m = (if m = n then instances s n @ [i] else instances s m)"
  by (simp add: register_def instances_def)

lemma instances_objects [simp]: "instances (s\<lparr>objects := k\<rparr>) n = instances s n"
  by (simp add: instances_def)

lemma not_denied_room:
  "\<not> denied s cfg \<Longrightarrow> 0 < cfg_limit cfg \<Longrightarrow> int (icount s (cfg_imagename cfg)) < cfg_limit cfg"
  by (auto simp: denied_def icount_def split: option.splits)

lemma denied_iff:
  "denied s cfg \<longleftrightarrow> 0 < cfg_limit cfg \<and> cfg_limit cfg \<le> int (icount s (cfg_imagename cfg))"
  by (auto simp: denied_def icount_def split: option.splits)

lemma create_imageParams:
  assumes "create w s p = Some (r, s', ev)"
  shows "imageParams (ports s') = imageParams (ports s)"
proof (cases "imageParams (ports s) p")
  case None
  with assms show ?thesis by (simp add: create_unregistered)
next
  case (Some cfg)
  show ?thesis
  proof (cases "denied s cfg")
    case True
    from create_denied [OF Some True, of w] assms show ?thesis by auto
  next
    case False
    from assms show ?thesis
      unfolding create_admitted [OF Some False]
      by (auto simp: register_def split: option.splits sum.splits)
  qed
qed

lemma create_icount:
  assumes "create w s p = Some (r, s', ev)"
    and "\<forall>q cfg. imageParams (ports s) q = Some cfg \<and> cfg_imagename cfg = n \<longrightarrow> cfg_limit cfg = N"
    and "0 < N" and "int (icount s n) \<le> N"
  shows "int (icount s' n) \<le> N"
proof (cases "imageParams (ports s) p")
  case None
  with assms show ?thesis by (simp add: create_unregistered)
next
  case (Some cfg)
  show ?thesis
  proof (cases "denied s cfg")
    case True
    from create_denied [OF Some True, of w] assms show ?thesis by auto
  next
    case False
    show ?thesis
    proof (cases "cfg_imagename cfg = n")
      case True
      with assms(2) Some have "cfg_limit cfg = N" by blast
      with not_denied_room [OF False] assms(3) True have "int (icount s n) < N" by simp
      with assms(1) True show ?thesis
        unfolding create_admitted [OF Some False]
        by (auto simp: icount_instances instances_register split: option.splits sum.splits)
    next
      case False
      with assms(1,4) show ?thesis
        unfolding create_admitted [OF Some \<open>\<not> denied s cfg\<close>]
        by (auto simp: icount_instances instances_register split: option.splits sum.splits)
    qed
  qed
qed

lemma byPort_register: "instancesByPort (ports (register s n i)) (middleport i) = Some i"
  by (simp add: register_def)

lemma set_limit_params:
  "imageParams (ports s) p = Some cfg \<Longrightarrow>
   imageParams (ports (set_limit s p l)) p = Some (cfg\<lparr>cfg_limit := l\<rparr>)"
  by (simp add: set_limit_def)

lemma set_limit_view:
  "instancesByPort (ports (set_limit s p l)) = instancesByPort (ports s)"
  "instancesByName (ports (set_limit s p l)) = instancesByName (ports s)"
  "objects (set_limit s p l) = objects s"
  by (simp_all add: set_limit_def split: option.splits)

lemma register_view:
  "instancesByPort (ports (register s n i)) = (instancesByPort (ports s))(middleport i \<mapsto> i)"
  "instancesByName (ports (register s n i)) = (instancesByName (ports s))(n \<mapsto> instances s n @ [i])"
  "objects (register s n i) = Suc (objects s)"
  by (simp_all add: register_def)

lemma instances_set_limit: "instances (set_limit s p l) n = instances s n"
  by (simp add: instances_def set_limit_view)

lemma create_unlimited_state0:
  "create world0 (set_limit state0 2222 l) 2222 =
     Some (Inr (Some instance1), register (set_limit state0 2222 l) ''web'' instance1, events_ready)"
  if "l \<le> 0" for l
proof -
  have p: "imageParams (ports (set_limit state0 2222 l)) 2222 = Some (config0\<lparr>cfg_limit := l\<rparr>)"
    by (rule set_limit_params) (simp add: state0_def)
  have d: "\<not> denied (set_limit state0 2222 l) (config0\<lparr>cfg_limit := l\<rparr>)"
    using that by (simp add: denied_def)
  have n: "new_instance (set_limit state0 2222 l) (config0\<lparr>cfg_limit := l\<rparr>) = fresh 1"
    by (simp add: new_instance_def config0_def fresh_def state0_def set_limit_def)
  show ?thesis
    using create_admitted [OF p d, of world0] n start_world0 [of 1]
    by (simp add: events_ready_def instance1_def config0_def)
qed

section \<open>Admission\<close>

text \<open>
  C5: on a port whose image has a limit above 0 and at least that many registered
  instances, \<^verbatim>\<open>create\<close> returns \<^verbatim>\<open>None\<close>; the state it leaves is the state it met
  (both mappings, and no \<^verbatim>\<open>DockerInstance\<close> constructed), and its only event is the
  printed line: no command reaches the shell.
\<close>

theorem create_denied_no_side_effects:
  assumes "imageParams (ports s) p = Some cfg"
    and "0 < cfg_limit cfg"
    and "cfg_limit cfg \<le> int (icount s (cfg_imagename cfg))"
  shows "create w s p =
           Some (Inr None, s,
                 [Print (''Reached max count of '' @ str_int (cfg_limit cfg) @ '' (currently ''
                         @ str_int (int (icount s (cfg_imagename cfg))) @ '') for image ''
                         @ cfg_imagename cfg)])"
proof -
  from assms(2,3) have "0 < icount s (cfg_imagename cfg)" by linarith
  then have "cfg_imagename cfg \<in> dom (instancesByName (ports s))" by (rule icount_dom)
  with assms show ?thesis by (simp add: create_def Let_def)
qed

theorem create_denied_no_side_effects_witness:
  "create world0 state0 2222 =
     Some (Inr None, state0, [Print ''Reached max count of 1 (currently 1) for image web''])"
  using create_denied_no_side_effects [of state0 2222 config0 world0]
  by (simp add: state0_def config0_def icount_def str_int_1)

text \<open>
  C7: on a port whose image has limit 0, \<^verbatim>\<open>create\<close> never returns the \<^verbatim>\<open>None\<close> of
  the limit check, whatever the registries hold. In the example one instance of \<open>web\<close> is
  registered and the call returns a second one.
\<close>

theorem create_unlimited_never_denied:
  assumes "imageParams (ports s) p = Some cfg" and "cfg_limit cfg = 0"
  shows "\<forall>s' ev. create w s p \<noteq> Some (Inr None, s', ev)"
proof -
  from assms(2) have d: "\<not> denied s cfg" by (simp add: denied_def)
  show ?thesis
    unfolding create_admitted [OF assms(1) d]
    by (auto split: option.splits sum.splits)
qed

theorem create_unlimited_never_denied_witness:
  "(\<forall>s' ev. create world0 (set_limit state0 2222 0) 2222 \<noteq> Some (Inr None, s', ev))
   \<and> icount (set_limit state0 2222 0) ''web'' = 1
   \<and> create world0 (set_limit state0 2222 0) 2222 =
       Some (Inr (Some instance1), register (set_limit state0 2222 0) ''web'' instance1, events_ready)"
proof -
  have p: "imageParams (ports (set_limit state0 2222 0)) 2222 = Some (config0\<lparr>cfg_limit := 0\<rparr>)"
    by (rule set_limit_params) (simp add: state0_def)
  have l: "cfg_limit (config0\<lparr>cfg_limit := 0\<rparr>) = 0" by simp
  have i: "icount (set_limit state0 2222 0) ''web'' = 1"
    by (simp add: icount_def set_limit_def state0_def)
  from create_unlimited_never_denied [OF p l, of world0] i create_unlimited_state0 [of 0]
  show ?thesis by simp
qed

text \<open>
  C10: with a limit of 0 or below the limit check never makes \<^verbatim>\<open>create\<close> return
  \<^verbatim>\<open>None\<close>, and the call does exactly what it does when the limit is 0: the same
  result, the same events, the same two mappings.
\<close>

theorem create_nonpositive_limit_unlimited:
  assumes "imageParams (ports s) p = Some cfg" and "cfg_limit cfg \<le> 0"
  shows "(\<forall>s' ev. create w s p \<noteq> Some (Inr None, s', ev))
       \<and> observe (create w s p) = observe (create w (set_limit s p 0) p)"
proof -
  from assms(2) have d: "\<not> denied s cfg" by (simp add: denied_def)
  have p0: "imageParams (ports (set_limit s p 0)) p = Some (cfg\<lparr>cfg_limit := 0\<rparr>)"
    using assms(1) by (rule set_limit_params)
  have d0: "\<not> denied (set_limit s p 0) (cfg\<lparr>cfg_limit := 0\<rparr>)" by (simp add: denied_def)
  have n: "new_instance (set_limit s p 0) (cfg\<lparr>cfg_limit := 0\<rparr>) = new_instance s cfg"
    by (simp add: new_instance_def set_limit_view)
  have a: "\<forall>s' ev. create w s p \<noteq> Some (Inr None, s', ev)"
    unfolding create_admitted [OF assms(1) d]
    by (auto split: option.splits sum.splits)
  have b: "observe (create w s p) = observe (create w (set_limit s p 0) p)"
    unfolding create_admitted [OF assms(1) d] create_admitted [OF p0 d0] n
    by (simp add: observe_def set_limit_view register_view instances_set_limit
        split: option.splits sum.splits)
  from a b show ?thesis by simp
qed

theorem create_nonpositive_limit_unlimited_witness:
  "(\<forall>s' ev. create world0 (set_limit state0 2222 (- 1)) 2222 \<noteq> Some (Inr None, s', ev))
   \<and> observe (create world0 (set_limit state0 2222 (- 1)) 2222)
       = observe (create world0 (set_limit (set_limit state0 2222 (- 1)) 2222 0) 2222)
   \<and> create world0 (set_limit state0 2222 (- 1)) 2222 =
       Some (Inr (Some instance1), register (set_limit state0 2222 (- 1)) ''web'' instance1, events_ready)"
proof -
  have p: "imageParams (ports (set_limit state0 2222 (- 1))) 2222 = Some (config0\<lparr>cfg_limit := - 1\<rparr>)"
    by (rule set_limit_params) (simp add: state0_def)
  have l: "cfg_limit (config0\<lparr>cfg_limit := - 1\<rparr>) \<le> 0" by simp
  from create_nonpositive_limit_unlimited [OF p l, of world0] create_unlimited_state0 [of "- 1"]
  show ?thesis by simp
qed

section \<open>The limit over sequences of calls\<close>

lemma list_remove_length: "list_remove x l = Inr l' \<Longrightarrow> Suc (length l') = length l"
  by (induction l arbitrary: l') (auto split: if_splits sum.splits)

lemma destroy_imageParams: "imageParams (ports (fst (snd (destroy w s i)))) = imageParams (ports s)"
  by (simp add: destroy_def Let_def split: option.splits sum.splits)

lemma destroy_icount: "icount (fst (snd (destroy w s i))) n \<le> icount s n"
  by (auto simp: destroy_def Let_def icount_def dest: list_remove_length
      split: option.splits sum.splits)

lemma stop_world0: "fst (stop world0 instance0) = Inr True"
  by (simp add: stop_def world0_def)

lemma step_invariant:
  assumes "step s x = Some s'"
    and "\<forall>q cfg. imageParams (ports s) q = Some cfg \<and> cfg_imagename cfg = n \<longrightarrow> cfg_limit cfg = N"
    and "0 < N" and "int (icount s n) \<le> N"
  shows "int (icount s' n) \<le> N \<and> imageParams (ports s') = imageParams (ports s)"
proof (cases x)
  case (Create p w)
  with assms(1) obtain r ev where c: "create w s p = Some (r, s', ev)"
    by (auto simp: step_def)
  from create_icount [OF c assms(2-4)] create_imageParams [OF c] show ?thesis by simp
next
  case (Destroy i w)
  with assms(1) have s': "s' = fst (snd (destroy w s i))" by (simp add: step_def)
  have "icount s' n \<le> icount s n" unfolding s' by (rule destroy_icount)
  with assms(4) show ?thesis by (simp add: s' destroy_imageParams)
qed

lemma run_invariant:
  assumes "run s ops = Some s'"
    and "\<forall>q cfg. imageParams (ports s) q = Some cfg \<and> cfg_imagename cfg = n \<longrightarrow> cfg_limit cfg = N"
    and "0 < N" and "int (icount s n) \<le> N"
  shows "int (icount s' n) \<le> N \<and> imageParams (ports s') = imageParams (ports s)"
  using assms
proof (induction ops arbitrary: s)
  case Nil
  then show ?case by simp
next
  case (Cons x xs)
  from Cons.prems(1) obtain t where t: "step s x = Some t" and r: "run t xs = Some s'"
    by (auto split: option.splits)
  from step_invariant [OF t Cons.prems(2-4)]
  have i: "int (icount t n) \<le> N" and p: "imageParams (ports t) = imageParams (ports s)" by simp_all
  from Cons.IH [OF r _ Cons.prems(3) i] Cons.prems(2) p show ?case by simp
qed

lemma destroy_state0: "fst (snd (destroy world0 state0 instance0)) = state_idle"
  using stop_world0
  by (simp add: destroy_def Let_def) (simp add: state0_def instance0_def state_idle_def)

lemma create_state_idle:
  "create world0 state_idle 2222
     = Some (Inr (Some instance1), state1,
           [Shell ''docker run --detach -P web'', Shell ''docker port c0ffee'',
            Print ''Started instance on middleport 12345 with ID c0ffee'',
            SockConnect ''0.0.0.0'' (Some 12345), SockClose, Sleep (1 / 10),
            SockConnect ''0.0.0.0'' (Some 12345), SockSetTimeout (1 / 10), SockRecv 1, SockClose])"
proof -
  have p: "imageParams (ports state_idle) 2222 = Some config0" by (simp add: state_idle_def)
  have d: "\<not> denied state_idle config0" by (simp add: denied_def config0_def icount_def state_idle_def)
  have n: "new_instance state_idle config0 = fresh 1"
    by (simp add: new_instance_def config0_def fresh_def state_idle_def)
  have r: "register state_idle (cfg_imagename config0) instance1 = state1"
    by (simp add: register_def config0_def instances_def instance1_def state1_def state_idle_def)
  show ?thesis
    using create_admitted [OF p d, of world0] n start_world0 [of 1] r
    by (simp add: instance1_def)
qed

lemma run_scenario:
  "run state0 [Create 2222 world0, Destroy instance0 world0, Create 2222 world0] = Some state1"
proof -
  have p: "imageParams (ports state0) 2222 = Some config0" by (simp add: state0_def)
  have d: "denied state0 config0" by (simp add: denied_def state0_def config0_def icount_def)
  from create_denied [OF p d, of world0]
  have a: "step state0 (Create 2222 world0) = Some state0" by (auto simp: step_def)
  have b: "step state0 (Destroy instance0 world0) = Some state_idle"
    by (simp add: step_def destroy_state0)
  have c: "step state_idle (Create 2222 world0) = Some state1"
    by (simp add: step_def create_state_idle)
  show ?thesis by (simp add: a b c)
qed

lemma create_raises:
  assumes "imageParams (ports s) p = Some cfg" and "\<not> denied s cfg"
    and "start w (new_instance s cfg) = Some (Inl e, i, ev)"
  shows "create w s p = Some (Inl e, s\<lparr>objects := Suc (objects s)\<rparr>, ev)"
  using assms(3) by (simp add: create_admitted [OF assms(1,2)])

lemma create_runs_on:
  assumes "imageParams (ports s) p = Some cfg" and "\<not> denied s cfg"
    and "start w (new_instance s cfg) = None"
  shows "create w s p = None"
  using assms(3) by (simp add: create_admitted [OF assms(1,2)])

lemma create_registers:
  assumes "imageParams (ports s) p = Some cfg" and "\<not> denied s cfg"
    and "start w (new_instance s cfg) = Some (Inr x, i, ev)"
  shows "\<exists>s'. create w s p = Some (Inr (Some i), s', ev)
           \<and> instances s' (cfg_imagename cfg) = instances s (cfg_imagename cfg) @ [i]
           \<and> instancesByPort (ports s') (middleport i) = Some i
           \<and> (\<forall>m. m \<noteq> cfg_imagename cfg \<longrightarrow> instances s' m = instances s m)"
  using assms(3)
  by (simp add: create_admitted [OF assms(1,2)] instances_register byPort_register)

text \<open>
  C1, as the claim states it, fails in its last part: below the limit \<^verbatim>\<open>create\<close> does
  not always register an instance. With the parameters \<open>-P {1} web\<close> the call
  \<^verbatim>\<open>cmd.format(0)\<close> in \<^verbatim>\<open>start\<close> raises \<^verbatim>\<open>IndexError\<close>; \<^verbatim>\<open>create\<close>, at count 0
  under limit 1, raises it too and has registered nothing.
\<close>

theorem create_below_limit_counterexample:
  "imageParams (ports state_braces) 2222
     = Some \<lparr>cfg_imagename = ''web'', cfg_params = ''-P {1} web'', cfg_limit = 1\<rparr>
   \<and> int (icount state_braces ''web'') < 1
   \<and> create world_format_raises state_braces 2222
       = Some (Inl IndexError, state_braces\<lparr>objects := 1\<rparr>, [])
   \<and> instances (state_braces\<lparr>objects := 1\<rparr>) ''web'' = []
   \<and> ports (state_braces\<lparr>objects := 1\<rparr>) = ports state_braces"
proof -
  let ?cfg = "\<lparr>cfg_imagename = ''web'', cfg_params = ''-P {1} web'', cfg_limit = 1\<rparr>"
  have p: "imageParams (ports state_braces) 2222 = Some ?cfg" by (simp add: state_braces_def)
  have d: "\<not> denied state_braces ?cfg" by (simp add: denied_def state_braces_def)
  have f: "start world_format_raises (new_instance state_braces ?cfg)
             = Some (Inl IndexError, new_instance state_braces ?cfg, [])"
    by (simp add: start_def py_format0_def new_instance_def world_format_raises_def world0_def)
  from create_raises [OF p d f] p show ?thesis
    by (simp add: icount_def instances_def state_braces_def)
qed

text \<open>
  C1, amended: let every port configured for image \<open>n\<close> carry the limit \<open>N > 0\<close>, and let
  a state hold at most \<open>N\<close> registered instances of \<open>n\<close>. Then after any sequence of
  \<^verbatim>\<open>create\<close> and \<^verbatim>\<open>destroy\<close> calls the number of registered instances of \<open>n\<close> is
  still at most \<open>N\<close>. In the state reached, \<^verbatim>\<open>create\<close> on a port of that image returns
  \<^verbatim>\<open>None\<close> and changes nothing when the count is \<open>N\<close>. Below \<open>N\<close> it constructs an
  instance and runs \<^verbatim>\<open>start\<close> on it, and does what \<^verbatim>\<open>start\<close> does: whenever
  \<^verbatim>\<open>start\<close> returns, with the instance id or with \<^verbatim>\<open>None\<close>, \<^verbatim>\<open>create\<close> returns that
  instance, appended to the list of the image and stored under its port, every other
  list unchanged, so exactly one more is registered; when \<^verbatim>\<open>start\<close> raises,
  \<^verbatim>\<open>create\<close> raises the same exception and has registered nothing; and when
  \<^verbatim>\<open>start\<close> does not return, neither does \<^verbatim>\<open>create\<close>.
\<close>

theorem limit_never_exceeded:
  assumes "\<forall>q cfg. imageParams (ports s) q = Some cfg \<and> cfg_imagename cfg = n \<longrightarrow> cfg_limit cfg = N"
    and "0 < N" and "int (icount s n) \<le> N" and "run s ops = Some s'"
  shows "int (icount s' n) \<le> N
       \<and> (\<forall>w p cfg. imageParams (ports s') p = Some cfg \<and> cfg_imagename cfg = n \<longrightarrow>
            (N \<le> int (icount s' n) \<longrightarrow> (\<exists>ev. create w s' p = Some (Inr None, s', ev)))
          \<and> (int (icount s' n) < N \<longrightarrow>
               (start w (new_instance s' cfg) = None \<longrightarrow> create w s' p = None)
             \<and> (\<forall>e i ev. start w (new_instance s' cfg) = Some (Inl e, i, ev) \<longrightarrow>
                   create w s' p = Some (Inl e, s'\<lparr>objects := Suc (objects s')\<rparr>, ev))
             \<and> (\<forall>x i ev. start w (new_instance s' cfg) = Some (Inr x, i, ev) \<longrightarrow>
                   (\<exists>s''. create w s' p = Some (Inr (Some i), s'', ev)
                         \<and> instances s'' n = instances s' n @ [i]
                         \<and> instancesByPort (ports s'') (middleport i) = Some i
                         \<and> (\<forall>m. m \<noteq> n \<longrightarrow> instances s'' m = instances s' m)))))"
proof -
  from run_invariant [OF assms(4,1,2,3)]
  have i: "int (icount s' n) \<le> N" and p: "imageParams (ports s') = imageParams (ports s)" by simp_all
  have "(N \<le> int (icount s' n) \<longrightarrow> (\<exists>ev. create w s' q = Some (Inr None, s', ev)))
          \<and> (int (icount s' n) < N \<longrightarrow>
               (start w (new_instance s' cfg) = None \<longrightarrow> create w s' q = None)
             \<and> (\<forall>e i ev. start w (new_instance s' cfg) = Some (Inl e, i, ev) \<longrightarrow>
                   create w s' q = Some (Inl e, s'\<lparr>objects := Suc (objects s')\<rparr>, ev))
             \<and> (\<forall>x i ev. start w (new_instance s' cfg) = Some (Inr x, i, ev) \<longrightarrow>
                   (\<exists>s''. create w s' q = Some (Inr (Some i), s'', ev)
                         \<and> instances s'' n = instances s' n @ [i]
                         \<and> instancesByPort (ports s'') (middleport i) = Some i
                         \<and> (\<forall>m. m \<noteq> n \<longrightarrow> instances s'' m = instances s' m))))"
    if q: "imageParams (ports s') q = Some cfg" and n: "cfg_imagename cfg = n" for w q cfg
  proof -
    from q n p assms(1) have l: "cfg_limit cfg = N" by simp
    have a: "\<exists>ev. create w s' q = Some (Inr None, s', ev)" if "N \<le> int (icount s' n)"
      using that l n assms(2) by (intro create_denied [OF q]) (simp add: denied_iff)
    have b: "(start w (new_instance s' cfg) = None \<longrightarrow> create w s' q = None)
             \<and> (\<forall>e i ev. start w (new_instance s' cfg) = Some (Inl e, i, ev) \<longrightarrow>
                   create w s' q = Some (Inl e, s'\<lparr>objects := Suc (objects s')\<rparr>, ev))
             \<and> (\<forall>x i ev. start w (new_instance s' cfg) = Some (Inr x, i, ev) \<longrightarrow>
                   (\<exists>s''. create w s' q = Some (Inr (Some i), s'', ev)
                         \<and> instances s'' n = instances s' n @ [i]
                         \<and> instancesByPort (ports s'') (middleport i) = Some i
                         \<and> (\<forall>m. m \<noteq> n \<longrightarrow> instances s'' m = instances s' m)))"
      if "int (icount s' n) < N"
    proof -
      from that l n have d: "\<not> denied s' cfg" by (simp add: denied_iff)
      from create_runs_on [OF q d] create_raises [OF q d] create_registers [OF q d] n
      show ?thesis by blast
    qed
    from a b show ?thesis by blast
  qed
  with i show ?thesis by blast
qed

lemma run_to_idle:
  "run state0 [Create 2222 world0, Destroy instance0 world0] = Some state_idle"
proof -
  have p: "imageParams (ports state0) 2222 = Some config0" by (simp add: state0_def)
  have d: "denied state0 config0" by (simp add: denied_def state0_def config0_def icount_def)
  from create_denied [OF p d, of world0]
  have a: "step state0 (Create 2222 world0) = Some state0" by (auto simp: step_def)
  have b: "step state0 (Destroy instance0 world0) = Some state_idle"
    by (simp add: step_def destroy_state0)
  show ?thesis by (simp add: a b)
qed

theorem limit_never_exceeded_witness:
  "run state0 [Create 2222 world0, Destroy instance0 world0, Create 2222 world0] = Some state1
   \<and> int (icount state1 ''web'') \<le> 1
   \<and> (\<exists>ev. create world0 state1 2222 = Some (Inr None, state1, ev))
   \<and> run state0 [Create 2222 world0, Destroy instance0 world0] = Some state_idle
   \<and> (\<exists>s''. create world0 state_idle 2222 = Some (Inr (Some instance1), s'', events_ready)
           \<and> instances s'' ''web'' = instances state_idle ''web'' @ [instance1]
           \<and> instancesByPort (ports s'') (middleport instance1) = Some instance1)"
proof -
  have l: "\<forall>q cfg. imageParams (ports state0) q = Some cfg \<and> cfg_imagename cfg = ''web'' \<longrightarrow> cfg_limit cfg = 1"
    by (simp add: state0_def config0_def)
  have i: "int (icount state0 ''web'') \<le> 1" by (simp add: icount_def state0_def)
  have p: "imageParams (ports state1) 2222 = Some config0" "cfg_imagename config0 = ''web''"
    by (simp_all add: state1_def config0_def)
  have c: "1 \<le> int (icount state1 ''web'')" by (simp add: icount_def state1_def)
  have z: "(0::int) < 1" by simp
  note t = limit_never_exceeded [OF l z i run_scenario]
  from t p c have a: "\<exists>ev. create world0 state1 2222 = Some (Inr None, state1, ev)" by blast
  have p': "imageParams (ports state_idle) 2222 = Some config0"
    by (simp add: state_idle_def)
  have c': "int (icount state_idle ''web'') < 1" by (simp add: icount_def state_idle_def)
  have st: "start world0 (new_instance state_idle config0)
              = Some (Inr (Some ''c0ffee''), instance1, events_ready)"
    using start_world0 [of 1]
    by (simp add: new_instance_def config0_def fresh_def state_idle_def instance1_def events_ready_def)
  note u = limit_never_exceeded [OF l z i run_to_idle]
  from u p' p(2) c' st
  have b: "\<exists>s''. create world0 state_idle 2222 = Some (Inr (Some instance1), s'', events_ready)
           \<and> instances s'' ''web'' = instances state_idle ''web'' @ [instance1]
           \<and> instancesByPort (ports s'') (middleport instance1) = Some instance1"
    by blast
  from t a b run_scenario run_to_idle show ?thesis by blast
qed

section \<open>A start that fails\<close>

text \<open>
  Whatever \<^verbatim>\<open>start\<close> returns, \<^verbatim>\<open>None\<close> for a failure or the instance id,
  \<^verbatim>\<open>create\<close> registers the instance and returns it.
\<close>

lemma create_ignores_start_result:
  assumes "imageParams (ports s) p = Some cfg" and "\<not> denied s cfg"
    and "start w (new_instance s cfg) = Some (Inr x, i, ev)"
  shows "create w s p = Some (Inr (Some i), register s (cfg_imagename cfg) i, ev)"
  using assms(3) by (simp add: create_admitted [OF assms(1,2)])

lemma create_launch_fails:
  "create world_launch_fails state_new 2222 =
     Some (Inr (Some (fresh 0)), state_failed_launch, events_launch_fails)"
proof -
  have p: "imageParams (ports state_new) 2222 = Some config0" by (simp add: state_new_def)
  have d: "\<not> denied state_new config0" by (simp add: denied_def config0_def icount_def state_new_def)
  have n: "new_instance state_new config0 = fresh 0"
    by (simp add: new_instance_def config0_def fresh_def state_new_def)
  have r: "register state_new (cfg_imagename config0) (fresh 0) = state_failed_launch"
    by (simp add: register_def config0_def instances_def fresh_def state_failed_launch_def state_new_def)
  show ?thesis
    using create_admitted [OF p d, of world_launch_fails] n start_launch_fails [of 0] r
    by (simp add: events_launch_fails_def)
qed

lemma create_never_ready:
  "create world_never_ready state_new 2222 = Some (Inr (Some instance0), state0, events_never_ready)"
proof -
  have p: "imageParams (ports state_new) 2222 = Some config0" by (simp add: state_new_def)
  have d: "\<not> denied state_new config0" by (simp add: denied_def config0_def icount_def state_new_def)
  have n: "new_instance state_new config0 = fresh 0"
    by (simp add: new_instance_def config0_def fresh_def state_new_def)
  have r: "register state_new (cfg_imagename config0) instance0 = state0"
    by (simp add: register_def config0_def instances_def instance0_def state0_def state_new_def)
  show ?thesis
    using create_admitted [OF p d, of world_never_ready] n start_never_ready [of 0] r
    by (simp add: events_never_ready_def instance0_def)
qed

text \<open>
  C2 does not hold of the code: \<^verbatim>\<open>create\<close> calls \<^verbatim>\<open>instance.start()\<close> and does not
  read what it returns. When \<^verbatim>\<open>docker run\<close> exits with 125, \<^verbatim>\<open>start\<close> returns
  \<^verbatim>\<open>None\<close>, and \<^verbatim>\<open>create\<close> returns the instance all the same, stored under the port
  \<^verbatim>\<open>None\<close> and in the list of \<open>web\<close>. When the container never answers, \<^verbatim>\<open>start\<close>
  kills and removes it and returns \<^verbatim>\<open>None\<close>, and \<^verbatim>\<open>create\<close> returns and registers
  the removed instance under port 12345.
\<close>

theorem create_registers_failed_start:
  "start world_launch_fails (fresh 0) = Some (Inr None, fresh 0, events_launch_fails)
   \<and> create world_launch_fails state_new 2222 =
       Some (Inr (Some (fresh 0)), state_failed_launch, events_launch_fails)
   \<and> instancesByPort (ports state_failed_launch) None = Some (fresh 0)
   \<and> instancesByName (ports state_failed_launch) ''web'' = Some [fresh 0]
   \<and> start world_never_ready (fresh 0) = Some (Inr None, instance0, events_never_ready)
   \<and> create world_never_ready state_new 2222 = Some (Inr (Some instance0), state0, events_never_ready)
   \<and> instancesByPort (ports state0) (Some 12345) = Some instance0
   \<and> instancesByName (ports state0) ''web'' = Some [instance0]"
  using start_launch_fails [of 0] start_never_ready [of 0] create_launch_fails create_never_ready
  by (simp add: events_launch_fails_def events_never_ready_def instance0_def state0_def
      state_failed_launch_def)

section \<open>DockerProxyServer.connectionMade\<close>

text \<open>
  When \<^verbatim>\<open>create\<close> returns \<^verbatim>\<open>None\<close> the session writes the rejection line, closes the
  connection and holds no instance, and \<^verbatim>\<open>connectionLost\<close> then destroys nothing.
\<close>

lemma connectionMade_denied:
  assumes "create w s (outerport self) = Some (Inr None, s', ev)"
  shows "connectionMade w s self =
           Some (Inr (), self\<lparr>dockerinstance := Some None\<rparr>, s',
                 [PauseProducing] @ ev @ [TransportWrite rejection, LoseConnection])
       \<and> connectionLost w' s' (self\<lparr>dockerinstance := Some None\<rparr>) =
           (Inr (), self\<lparr>dockerinstance := Some None\<rparr>, s', [])"
  using assms by (simp add: connectionMade_def connectionLost_def)

text \<open>
  C4 does not hold of the code where the start fails: \<^verbatim>\<open>create\<close> then returns the
  failed instance, so \<^verbatim>\<open>connectionMade\<close> writes no rejection line and does not close
  the connection; it keeps the instance in \<^verbatim>\<open>self.dockerinstance\<close> and calls
  \<^verbatim>\<open>connectTCP\<close> on its port, \<^verbatim>\<open>None\<close> after a failed \<^verbatim>\<open>docker run\<close> and 12345,
  the port of the removed container, after a readiness timeout.
\<close>

theorem connectionMade_attaches_failed_start:
  "connectionMade world_launch_fails state_new session0 =
     Some (Inr (), session0\<lparr>dockerinstance := Some (Some (fresh 0))\<rparr>, state_failed_launch,
           [PauseProducing] @ events_launch_fails @ [ConnectTCP ''0.0.0.0'' None])
   \<and> connectionMade world_never_ready state_new session0 =
     Some (Inr (), session0\<lparr>dockerinstance := Some (Some instance0)\<rparr>, state0,
           [PauseProducing] @ events_never_ready @ [ConnectTCP ''0.0.0.0'' (Some 12345)])"
  using create_launch_fails create_never_ready
  by (simp add: connectionMade_def session0_def fresh_def instance0_def)

section \<open>registerProxy\<close>

text \<open>
  C6, as the claim states it, fails: \<^verbatim>\<open>registerProxy\<close> is one dictionary assignment
  and has no check. Registering \<open>web\<close> and then \<open>db\<close> on port 2222 returns normally
  both times and leaves \<open>db\<close> under the port.
\<close>

theorem registerProxy_twice_counterexample:
  "fst (registerProxy (snd (registerProxy init ''web'' 2222 ''-P web'' 1)) ''db'' 2222 ''-P db'' 3) = Inr ()
   \<and> imageParams (ports (snd (registerProxy (snd (registerProxy init ''web'' 2222 ''-P web'' 1))
                                 ''db'' 2222 ''-P db'' 3))) 2222
       = Some \<lparr>cfg_imagename = ''db'', cfg_params = ''-P db'', cfg_limit = 3\<rparr>"
  by (simp add: registerProxy_def init_def)

text \<open>
  C6, amended: a second \<^verbatim>\<open>registerProxy\<close> for a published port that is already
  registered succeeds, and replaces the configuration stored for that port: the state is
  the one the second call alone would have produced.
\<close>

theorem registerProxy_replaces:
  "fst (registerProxy (snd (registerProxy s n1 p a1 l1)) n2 p a2 l2) = Inr ()
   \<and> snd (registerProxy (snd (registerProxy s n1 p a1 l1)) n2 p a2 l2) = snd (registerProxy s n2 p a2 l2)
   \<and> imageParams (ports (snd (registerProxy s n2 p a2 l2))) p
       = Some \<lparr>cfg_imagename = n2, cfg_params = a2, cfg_limit = l2\<rparr>"
  by (simp add: registerProxy_def)

end
